theory Spec2Isabelle
  imports Complex_Main "HOL-Library.Word"
begin

section \<open>JavaScript values used by the viewer\<close>

text \<open>
  A JavaScript string is a sequence of UTF-16 code units and \<open>.length\<close> counts them,
  so a string is a list of 16-bit words and its length is the list's length.

  Finite JavaScript numbers are the reals they denote (rounding is not modelled).
  The values that are not finite numbers are kept apart: \<open>NaN\<close>, which arithmetic on
  \<open>undefined\<close> produces, and the two infinities.
\<close>

type_synonym js_string = "16 word list"

datatype js_number = Num real | Inf bool | NaN

text \<open>\<open>Inf True\<close> is \<open>Infinity\<close>, \<open>Inf False\<close> is \<open>-Infinity\<close>.\<close>

fun js_sub :: "js_number \<Rightarrow> js_number \<Rightarrow> js_number" where
  "js_sub (Num a) (Num b) = Num (a - b)"
| "js_sub NaN _ = NaN"
| "js_sub _ NaN = NaN"
| "js_sub (Inf s) (Inf t) = (if s = t then NaN else Inf s)"
| "js_sub (Inf s) (Num _) = Inf s"
| "js_sub (Num _) (Inf t) = Inf (\<not> t)"

text \<open>Division and multiplication by a positive finite literal (\<open>/ 10\<close>, \<open>* 1.3\<close>).\<close>

fun js_div_lit :: "js_number \<Rightarrow> real \<Rightarrow> js_number" where
  "js_div_lit (Num a) c = Num (a / c)"
| "js_div_lit (Inf s) c = Inf s"
| "js_div_lit NaN c = NaN"

fun js_mul_lit :: "js_number \<Rightarrow> real \<Rightarrow> js_number" where
  "js_mul_lit (Num a) c = Num (a * c)"
| "js_mul_lit (Inf s) c = Inf s"
| "js_mul_lit NaN c = NaN"

text \<open>The comparison \<open>a > b\<close>: false as soon as one side is \<open>NaN\<close>.\<close>

fun js_gt :: "js_number \<Rightarrow> js_number \<Rightarrow> bool" where
  "js_gt (Num a) (Num b) = (a > b)"
| "js_gt NaN _ = False"
| "js_gt _ NaN = False"
| "js_gt (Inf s) (Inf t) = (s \<and> \<not> t)"
| "js_gt (Inf s) (Num _) = s"
| "js_gt (Num _) (Inf t) = (\<not> t)"

text \<open>
  The quotient of two unsigned integers (\<open>img.naturalWidth / img.naturalHeight\<close>):
  \<open>0 / 0\<close> is \<open>NaN\<close> and \<open>n / 0\<close> is \<open>Infinity\<close> for positive \<open>n\<close>.
\<close>

definition js_div_nat :: "nat \<Rightarrow> nat \<Rightarrow> js_number" where
  "js_div_nat a b =
     (if b = 0 then (if a = 0 then NaN else Inf True) else Num (real a / real b))"

text \<open>
  Reading position \<open>i\<close> of an array by destructuring: a missing element is
  \<open>undefined\<close>, which every arithmetic operator turns into \<open>NaN\<close>.
\<close>

definition js_elem :: "js_number list \<Rightarrow> nat \<Rightarrow> js_number" where
  "js_elem xs i = (if i < length xs then xs ! i else NaN)"

datatype js_error = TypeError

section \<open>Data model (types.ts)\<close>

record TranslationItem =
  originalText :: js_string
  translatedText :: js_string
  box_2d :: "js_number list"

text \<open>
  \<open>ViewState\<close> has the fields \<open>scale\<close>, \<open>x\<close> and \<open>y\<close>; the two offsets are named
  \<open>view_x\<close> and \<open>view_y\<close> here.
\<close>

record ViewState =
  scale :: real
  view_x :: real
  view_y :: real

section \<open>State of the SplitViewer component\<close>

text \<open>The state \<open>imageDims\<close>: \<open>{ w, h, ratio }\<close>.\<close>

record ImageDims =
  dims_w :: nat
  dims_h :: nat
  ratio :: js_number

text \<open>An \<open>Image\<close> object created by the effect, as its \<open>onload\<close> callback sees it.\<close>

record HTMLImage =
  src :: js_string
  naturalWidth :: nat
  naturalHeight :: nat

text \<open>
  The props \<open>imageData\<close> and \<open>translations\<close> (named \<open>translationItems\<close>
  here), the four \<open>useState\<close> cells and the ref \<open>lastPosition\<close>.
\<close>

record viewer =
  imageData :: js_string
  translationItems :: "TranslationItem list"
  viewState :: ViewState
  isDragging :: bool
  imageDims :: "ImageDims option"
  overlayOpacity :: real
  lastPosition :: "real \<times> real"

text \<open>The initial values of the hooks when the component is mounted.\<close>

definition mount :: "js_string \<Rightarrow> TranslationItem list \<Rightarrow> viewer" where
  "mount data items =
     \<lparr> imageData = data, translationItems = items,
       viewState = \<lparr> scale = 1, view_x = 0, view_y = 0 \<rparr>,
       isDragging = False, imageDims = None, overlayOpacity = 0.8,
       lastPosition = (0, 0) \<rparr>"

section \<open>Loading the image dimensions\<close>

text \<open>
  The \<open>onload\<close> callback registered by the effect: it stores the dimensions of the
  image object it was registered on.
\<close>

definition img_onload :: "HTMLImage \<Rightarrow> viewer \<Rightarrow> viewer" where
  "img_onload img s =
     s\<lparr> imageDims := Some \<lparr> dims_w = naturalWidth img, dims_h = naturalHeight img,
                            ratio = js_div_nat (naturalWidth img) (naturalHeight img) \<rparr> \<rparr>"

section \<open>Event handlers\<close>

text \<open>
  A mouse event carries \<open>clientX\<close> and \<open>clientY\<close>; a touch event carries the list
  \<open>touches\<close>. Reading \<open>e.touches[0].clientX\<close> of an empty list throws a TypeError.
\<close>

datatype pointer_event = MouseEvent real real | TouchEvent "(real \<times> real) list"

fun client_pos :: "pointer_event \<Rightarrow> js_error + (real \<times> real)" where
  "client_pos (MouseEvent cx cy) = Inr (cx, cy)"
| "client_pos (TouchEvent []) = Inl TypeError"
| "client_pos (TouchEvent (t # ts)) = Inr t"

text \<open>
  \<open>handleWheel\<close> reads \<open>viewState.scale\<close> from the render that created the callback
  (its first argument) and updates the state that is current when the update runs.
\<close>

definition handleWheel :: "ViewState \<Rightarrow> real \<Rightarrow> ViewState \<Rightarrow> ViewState" where
  "handleWheel rendered deltaY prev =
     (let scaleChange = - deltaY * 0.002;
          newScale = min (max 0.5 (scale rendered + scaleChange)) 8
      in prev\<lparr> scale := newScale \<rparr>)"

text \<open>
  A handler returns the state it leaves behind and the error it threw, if any.
  \<open>handleMouseDown\<close> sets \<open>isDragging\<close> before it reads the position, so that update
  stays when the read throws.
\<close>

definition handleMouseDown :: "pointer_event \<Rightarrow> viewer \<Rightarrow> viewer \<times> js_error option" where
  "handleMouseDown e s =
     (let s1 = s\<lparr> isDragging := True \<rparr>
      in case client_pos e of
           Inl err \<Rightarrow> (s1, Some err)
         | Inr (clientX, clientY) \<Rightarrow> (s1\<lparr> lastPosition := (clientX, clientY) \<rparr>, None))"

text \<open>
  \<open>handleMouseMove\<close> reads \<open>isDragging\<close> from the render that created the callback
  (its first argument).
\<close>

definition handleMouseMove :: "bool \<Rightarrow> pointer_event \<Rightarrow> viewer \<Rightarrow> viewer \<times> js_error option" where
  "handleMouseMove dragging e s =
     (if \<not> dragging then (s, None)
      else case client_pos e of
           Inl err \<Rightarrow> (s, Some err)
         | Inr (clientX, clientY) \<Rightarrow>
             (let dx = clientX - fst (lastPosition s);
                  dy = clientY - snd (lastPosition s);
                  prev = viewState s
              in (s\<lparr> lastPosition := (clientX, clientY),
                      viewState := prev\<lparr> view_x := view_x prev + dx,
                                          view_y := view_y prev + dy \<rparr> \<rparr>, None)))"

definition handleMouseUp :: "viewer \<Rightarrow> viewer" where
  "handleMouseUp s = s\<lparr> isDragging := False \<rparr>"

definition resetView :: "viewer \<Rightarrow> viewer" where
  "resetView s = s\<lparr> viewState := \<lparr> scale = 1, view_x = 0, view_y = 0 \<rparr> \<rparr>"

text \<open>The two stepper buttons and the opacity slider.\<close>

definition zoomOutClick :: "ViewState \<Rightarrow> ViewState" where
  "zoomOutClick s = s\<lparr> scale := max 0.5 (scale s - 0.25) \<rparr>"

definition zoomInClick :: "ViewState \<Rightarrow> ViewState" where
  "zoomInClick s = s\<lparr> scale := min 8 (scale s + 0.25) \<rparr>"

definition opacityChange :: "real \<Rightarrow> viewer \<Rightarrow> viewer" where
  "opacityChange v s = s\<lparr> overlayOpacity := v / 100 \<rparr>"

section \<open>The event stream\<close>

text \<open>
  The events the component receives. \<open>PointerUp\<close> stands for \<open>mouseup\<close>,
  \<open>mouseleave\<close> and \<open>touchend\<close>, which share \<open>handleMouseUp\<close>; \<open>PointerDown\<close> and
  \<open>PointerMove\<close> stand for the mouse and the touch variant. \<open>NewImageData\<close> is the
  parent passing another \<open>imageData\<close>, on which the effect starts another load;
  \<open>ImageLoaded\<close> is the \<open>onload\<close> of an image object of an earlier effect.
\<close>

datatype event =
    Wheel real
  | PointerDown pointer_event
  | PointerMove pointer_event
  | PointerUp
  | ZoomOutClick
  | ZoomInClick
  | ResetClick
  | OpacityInput real
  | NewImageData js_string
  | ImageLoaded HTMLImage

text \<open>
  One event, followed by the render it causes: the callbacks of the next event
  close over the state this one leaves. An error thrown by a handler is reported
  and the state it left is kept.
\<close>

fun step :: "viewer \<Rightarrow> event \<Rightarrow> viewer" where
  "step s (Wheel deltaY) = s\<lparr> viewState := handleWheel (viewState s) deltaY (viewState s) \<rparr>"
| "step s (PointerDown e) = fst (handleMouseDown e s)"
| "step s (PointerMove e) = fst (handleMouseMove (isDragging s) e s)"
| "step s PointerUp = handleMouseUp s"
| "step s ZoomOutClick = s\<lparr> viewState := zoomOutClick (viewState s) \<rparr>"
| "step s ZoomInClick = s\<lparr> viewState := zoomInClick (viewState s) \<rparr>"
| "step s ResetClick = resetView s"
| "step s (OpacityInput v) = opacityChange v s"
| "step s (NewImageData data) = s\<lparr> imageData := data \<rparr>"
| "step s (ImageLoaded img) = img_onload img s"

definition run :: "viewer \<Rightarrow> event list \<Rightarrow> viewer" where
  "run s evs = foldl step s evs"

section \<open>Rendering\<close>

datatype pane_mode = Original | Translated

datatype css_length = Cqw real | Cqh real

text \<open>The CSS value \<open>min(a, b)\<close> of the font size.\<close>

datatype font_size = CssMin css_length css_length

datatype writing_mode = VerticalRl | HorizontalTb

datatype text_orientation = Upright

text \<open>The locals of the callback of \<open>translations.map\<close>.\<close>

definition isVertical :: "TranslationItem \<Rightarrow> bool" where
  "isVertical item =
     (let ymin = js_elem (box_2d item) 0; xmin = js_elem (box_2d item) 1;
          ymax = js_elem (box_2d item) 2; xmax = js_elem (box_2d item) 3
      in js_gt (js_sub ymax ymin) (js_mul_lit (js_sub xmax xmin) 1.3))"

text \<open>\<open>item.translatedText.length || 1\<close>: the length, or 1 when the length is 0.\<close>

definition textLen :: "TranslationItem \<Rightarrow> nat" where
  "textLen item =
     (if length (translatedText item) = 0 then 1 else length (translatedText item))"

text \<open>
  The style of one overlay box and of the text in it. The four placement values
  are percentages; \<open>bg_alpha\<close> is the alpha of the background colour; the line
  height is the number that the literal \<open>'1.1'\<close> or \<open>'1'\<close> denotes.
\<close>

record overlay =
  top_pct :: js_number
  left_pct :: js_number
  width_pct :: js_number
  height_pct :: js_number
  bg_alpha :: real
  writingMode :: writing_mode
  textOrientation :: "text_orientation option"
  fontSize :: font_size
  lineHeight :: real
  content :: js_string

definition renderOverlay :: "real \<Rightarrow> TranslationItem \<Rightarrow> overlay" where
  "renderOverlay opacity item =
     (let ymin = js_elem (box_2d item) 0; xmin = js_elem (box_2d item) 1;
          ymax = js_elem (box_2d item) 2; xmax = js_elem (box_2d item) 3
      in \<lparr> top_pct = js_div_lit ymin 10,
           left_pct = js_div_lit xmin 10,
           width_pct = js_div_lit (js_sub xmax xmin) 10,
           height_pct = js_div_lit (js_sub ymax ymin) 10,
           bg_alpha = opacity,
           writingMode = (if isVertical item then VerticalRl else HorizontalTb),
           textOrientation = (if isVertical item then Some Upright else None),
           fontSize = (if isVertical item
                       then CssMin (Cqw 85) (Cqh (95 / real (textLen item)))
                       else CssMin (Cqh 85) (Cqw (95 / real (textLen item)))),
           lineHeight = (if isVertical item then 1.1 else 1),
           content = translatedText item \<rparr>)"

text \<open>
  The transform \<open>translate(x px, y px) scale(s)\<close>, the wrapper that is locked to the
  aspect ratio, and the pane.
\<close>

datatype css_transform = TranslateScale real real real

datatype css_transition = NoTransition | TransformEaseOut

datatype css_cursor = Grabbing | Grab

datatype css_size = Auto | Full

record pane =
  transform :: css_transform
  transition :: css_transition
  cursor :: css_cursor
  aspectRatio :: js_number
  wrapper_height :: css_size
  wrapper_width :: css_size
  img_src :: js_string
  overlays :: "overlay list option"

text \<open>\<open>renderImageContent\<close> returns \<open>null\<close> until the dimensions are known.\<close>

definition renderImageContent :: "viewer \<Rightarrow> pane_mode \<Rightarrow> pane option" where
  "renderImageContent s mode =
     (case imageDims s of
        None \<Rightarrow> None
      | Some dims \<Rightarrow>
          Some \<lparr> transform = TranslateScale (view_x (viewState s)) (view_y (viewState s))
                                             (scale (viewState s)),
                 transition = (if isDragging s then NoTransition else TransformEaseOut),
                 cursor = (if isDragging s then Grabbing else Grab),
                 aspectRatio = ratio dims,
                 wrapper_height = (if js_gt (ratio dims) (Num 1) then Auto else Full),
                 wrapper_width = (if js_gt (ratio dims) (Num 1) then Full else Auto),
                 img_src = imageData s,
                 overlays = (if mode = Translated
                             then Some (map (renderOverlay (overlayOpacity s)) (translationItems s))
                             else None) \<rparr>)"

text \<open>The two panes of one render: the original one and the translated one.\<close>

definition render :: "viewer \<Rightarrow> pane option \<times> pane option" where
  "render s = (renderImageContent s Original, renderImageContent s Translated)"

section \<open>What is observed of a render\<close>

definition applied_transform :: "pane option \<Rightarrow> css_transform option" where
  "applied_transform p = map_option transform p"

definition placement :: "overlay \<Rightarrow> js_number \<times> js_number \<times> js_number \<times> js_number" where
  "placement ov = (top_pct ov, left_pct ov, width_pct ov, height_pct ov)"

definition pane_overlays :: "pane option \<Rightarrow> overlay list" where
  "pane_overlays p =
     (case p of None \<Rightarrow> []
      | Some q \<Rightarrow> (case overlays q of None \<Rightarrow> [] | Some ovs \<Rightarrow> ovs))"

text \<open>A box of four finite coordinates, and a mouse move to a point.\<close>

definition box_of :: "real \<times> real \<times> real \<times> real \<Rightarrow> js_number list" where
  "box_of b = (case b of (ymin, xmin, ymax, xmax) \<Rightarrow> [Num ymin, Num xmin, Num ymax, Num xmax])"

definition mouse_move :: "real \<times> real \<Rightarrow> event" where
  "mouse_move p = PointerMove (MouseEvent (fst p) (snd p))"

section \<open>The formulas of the specification\<close>

text \<open>
  These follow the words of the specification, not the source; the theorems below
  compare the source with them.
\<close>

definition clamp :: "real \<Rightarrow> real \<Rightarrow> real \<Rightarrow> real" where
  "clamp v lo hi = (if v < lo then lo else if hi < v then hi else v)"

definition in_scale_range :: "real \<Rightarrow> bool" where
  "in_scale_range v = (0.5 \<le> v \<and> v \<le> 8)"

definition spec_len :: "js_string \<Rightarrow> nat" where
  "spec_len t = max 1 (length t)"

text \<open>The defensive clamp \<open>ymax = max(ymax, ymin+1)\<close>, likewise for \<open>xmax\<close>.\<close>

definition spec_clamp_box :: "real \<times> real \<times> real \<times> real \<Rightarrow> real \<times> real \<times> real \<times> real" where
  "spec_clamp_box b =
     (case b of (ymin, xmin, ymax, xmax) \<Rightarrow>
        (ymin, xmin, max ymax (ymin + 1), max xmax (xmin + 1)))"

text \<open>A load completion that is ignored unless its source is the current one.\<close>

definition spec_onload :: "HTMLImage \<Rightarrow> viewer \<Rightarrow> viewer" where
  "spec_onload img s = (if src img = imageData s then img_onload img s else s)"

section \<open>Transform synchronization\<close>

text \<open>
  Claim C1. Whatever the image, the regions, the opacity and the events received so
  far, the transform of the original pane and the transform of the translated pane
  of one render are the same value, built from the one view state; the panes have
  no transform only while the dimensions are unknown, and then both have none.
\<close>

theorem transform_synchronized:
  "applied_transform (fst (render (run s evs))) = applied_transform (snd (render (run s evs)))
   \<and> applied_transform (snd (render (run s evs)))
       = map_option (\<lambda>_. TranslateScale (view_x (viewState (run s evs)))
                            (view_y (viewState (run s evs))) (scale (viewState (run s evs))))
           (imageDims (run s evs))"
  by (simp add: applied_transform_def render_def renderImageContent_def split: option.split)

section \<open>Placement of an overlay\<close>

lemma placement_box4:
  "placement (renderOverlay opacity (item\<lparr> box_2d := [Num ymin, Num xmin, Num ymax, Num xmax] \<rparr>))
     = (Num (ymin / 10), Num (xmin / 10), Num ((xmax - xmin) / 10), Num ((ymax - ymin) / 10))"
  by (simp add: placement_def renderOverlay_def js_elem_def Let_def)

text \<open>
  Claim C2. For a box (ymin, xmin, ymax, xmax) the overlay is placed at
  top = ymin/10, left = xmin/10, width = (xmax-xmin)/10, height = (ymax-ymin)/10
  percent; for the box (100, 200, 300, 600) on an image of aspect ratio 1 the
  translated pane holds one overlay, at top 10, left 20, width 40, height 20.
\<close>

theorem placement_of_box:
  "placement (renderOverlay opacity (item\<lparr> box_2d := [Num ymin, Num xmin, Num ymax, Num xmax] \<rparr>))
     = (Num (ymin / 10), Num (xmin / 10), Num ((xmax - xmin) / 10), Num ((ymax - ymin) / 10))
   \<and> map placement (pane_overlays (renderImageContent
        (img_onload \<lparr> src = d, naturalWidth = 800, naturalHeight = 800 \<rparr>
           (mount d [item\<lparr> box_2d := [Num 100, Num 200, Num 300, Num 600] \<rparr>])) Translated))
     = [(Num 10, Num 20, Num 40, Num 20)]
   \<and> map_option aspectRatio (renderImageContent
        (img_onload \<lparr> src = d, naturalWidth = 800, naturalHeight = 800 \<rparr>
           (mount d [item\<lparr> box_2d := [Num 100, Num 200, Num 300, Num 600] \<rparr>])) Translated)
     = Some (Num 1)"
  by (simp add: placement_box4 pane_overlays_def renderImageContent_def img_onload_def
        mount_def js_div_nat_def)

section \<open>Orientation\<close>

text \<open>
  Claim C3. A box is vertical exactly when ymax - ymin > 1.3 * (xmax - xmin), and
  the writing mode follows; the inequality is strict: a box 130 high and 100 wide
  is horizontal, a box 131 high and 100 wide is vertical.
\<close>

theorem orientation_threshold:
  "isVertical (item\<lparr> box_2d := [Num ymin, Num xmin, Num ymax, Num xmax] \<rparr>)
     = (ymax - ymin > 1.3 * (xmax - xmin))
   \<and> writingMode (renderOverlay opacity (item\<lparr> box_2d := [Num ymin, Num xmin, Num ymax, Num xmax] \<rparr>))
     = (if ymax - ymin > 1.3 * (xmax - xmin) then VerticalRl else HorizontalTb)
   \<and> isVertical (item\<lparr> box_2d := [Num ymin, Num xmin, Num (ymin + 130), Num (xmin + 100)] \<rparr>) = False
   \<and> isVertical (item\<lparr> box_2d := [Num ymin, Num xmin, Num (ymin + 131), Num (xmin + 100)] \<rparr>) = True"
  by (simp add: isVertical_def renderOverlay_def js_elem_def Let_def mult.commute)

section \<open>Font size and line height\<close>

lemma textLen_spec_len: "textLen item = spec_len (translatedText item)"
  by (cases "translatedText item") (simp_all add: textLen_def spec_len_def)

lemma textLen_pos: "0 < textLen item"
  by (simp add: textLen_def)

text \<open>
  Claim C4. With len = max(1, translatedText.length), which is never 0, the font
  size is min(85 cqh, (95/len) cqw) for horizontal text and
  min(85 cqw, (95/len) cqh) for vertical text; the line height is 1.1 for vertical
  and 1 for horizontal text. An empty text is sized as a text of length 1.
\<close>

theorem font_fit:
  "textLen item = spec_len (translatedText item)
   \<and> 0 < textLen item
   \<and> fontSize (renderOverlay opacity item)
       = (if isVertical item
          then CssMin (Cqw 85) (Cqh (95 / real (spec_len (translatedText item))))
          else CssMin (Cqh 85) (Cqw (95 / real (spec_len (translatedText item)))))
   \<and> lineHeight (renderOverlay opacity item) = (if isVertical item then 1.1 else 1.0)
   \<and> fontSize (renderOverlay opacity
         (item\<lparr> translatedText := [], box_2d := [Num 0, Num 0, Num 500, Num 1000] \<rparr>))
       = CssMin (Cqh 85) (Cqw 95)"
proof -
  have len: "textLen item = spec_len (translatedText item)"
    by (rule textLen_spec_len)
  have font: "fontSize (renderOverlay opacity item)
       = (if isVertical item
          then CssMin (Cqw 85) (Cqh (95 / real (spec_len (translatedText item))))
          else CssMin (Cqh 85) (Cqw (95 / real (spec_len (translatedText item)))))"
    by (simp add: renderOverlay_def Let_def len)
  have line: "lineHeight (renderOverlay opacity item) = (if isVertical item then 1.1 else 1.0)"
    by (simp add: renderOverlay_def Let_def)
  have empty: "fontSize (renderOverlay opacity
         (item\<lparr> translatedText := [], box_2d := [Num 0, Num 0, Num 500, Num 1000] \<rparr>))
       = CssMin (Cqh 85) (Cqw 95)"
    by (simp add: renderOverlay_def Let_def isVertical_def js_elem_def textLen_def)
  from len textLen_pos font line empty show ?thesis by blast
qed

section \<open>The scale stays between 0.5 and 8\<close>

lemma clamp_in_range: "in_scale_range (clamp v 0.5 8)"
  by (simp add: clamp_def in_scale_range_def)

lemma handleWheel_scale:
  "scale (handleWheel r deltaY prev) = clamp (scale r + (- deltaY * 0.002)) 0.5 8"
  by (simp add: handleWheel_def Let_def clamp_def min_def max_def)

lemma zoomOut_scale: "scale s \<le> 8 \<Longrightarrow> scale (zoomOutClick s) = clamp (scale s - 0.25) 0.5 8"
  by (simp add: zoomOutClick_def clamp_def max_def)

lemma zoomIn_scale: "0.5 \<le> scale s \<Longrightarrow> scale (zoomInClick s) = clamp (scale s + 0.25) 0.5 8"
  by (simp add: zoomInClick_def clamp_def min_def)

text \<open>
  Claim C5. From a scale between 0.5 and 8, a wheel event with any deltaY gives
  clamp(scale + (-deltaY * 0.002), 0.5, 8), a press of + or - gives the clamp of
  scale + 0.25 or scale - 0.25, and each result is between 0.5 and 8: a change
  beyond a bound stops at the bound. The wheel result is in range whatever scale
  the callback closed over.
\<close>

theorem scale_clamp:
  assumes "in_scale_range (scale (viewState s))"
  shows "scale (viewState (step s (Wheel deltaY)))
           = clamp (scale (viewState s) + (- deltaY * 0.002)) 0.5 8
       \<and> scale (viewState (step s ZoomInClick)) = clamp (scale (viewState s) + 0.25) 0.5 8
       \<and> scale (viewState (step s ZoomOutClick)) = clamp (scale (viewState s) - 0.25) 0.5 8
       \<and> in_scale_range (scale (viewState (step s (Wheel deltaY))))
       \<and> in_scale_range (scale (viewState (step s ZoomInClick)))
       \<and> in_scale_range (scale (viewState (step s ZoomOutClick)))
       \<and> in_scale_range (scale (handleWheel rendered deltaY (viewState s)))"
proof -
  from assms have lo: "0.5 \<le> scale (viewState s)" and hi: "scale (viewState s) \<le> 8"
    by (simp_all add: in_scale_range_def)
  have w: "scale (viewState (step s (Wheel deltaY)))
           = clamp (scale (viewState s) + (- deltaY * 0.002)) 0.5 8"
    by (simp add: handleWheel_scale)
  have i: "scale (viewState (step s ZoomInClick)) = clamp (scale (viewState s) + 0.25) 0.5 8"
    using lo by (simp add: zoomIn_scale)
  have o: "scale (viewState (step s ZoomOutClick)) = clamp (scale (viewState s) - 0.25) 0.5 8"
    using hi by (simp add: zoomOut_scale)
  have c: "in_scale_range (scale (handleWheel rendered deltaY (viewState s)))"
    by (simp only: handleWheel_scale clamp_in_range)
  from w i o c show ?thesis by (simp only: clamp_in_range simp_thms)
qed

theorem scale_clamp_witness:
  "in_scale_range (scale (viewState (mount [] [])))
   \<and> scale (viewState (step (mount [] []) (Wheel (-10000)))) = 8
   \<and> scale (viewState (step (mount [] []) (Wheel 10000))) = 0.5
   \<and> scale (viewState (step (mount [] []) (Wheel (-100)))) = 1.2
   \<and> scale (viewState (step (mount [] []) ZoomInClick)) = 1.25
   \<and> scale (viewState (step (mount [] []) ZoomOutClick)) = 0.75"
proof -
  have h: "in_scale_range (scale (viewState (mount [] [])))"
    by (simp add: mount_def in_scale_range_def)
  have v: "scale (viewState (mount [] [])) = 1"
    by (simp add: mount_def)
  from h scale_clamp [OF h, of "-10000"] scale_clamp [OF h, of 10000] scale_clamp [OF h, of "-100"]
  show ?thesis by (simp add: v clamp_def)
qed

section \<open>Malformed boxes\<close>

text \<open>
  Claim C6, as stated, fails: the box (300, 200, 100, 600), whose ymax is below its
  ymin, is placed with the height -20 percent, which is not the placement of the
  box clamped by ymax = max(ymax, ymin+1).
\<close>

theorem no_defensive_clamp_counterexample:
  "placement (renderOverlay 0.8
       \<lparr> originalText = [], translatedText = [], box_2d = box_of (300, 200, 100, 600) \<rparr>)
     = (Num 30, Num 20, Num 40, Num (- 20))
   \<and> placement (renderOverlay 0.8
       \<lparr> originalText = [], translatedText = [], box_2d = box_of (300, 200, 100, 600) \<rparr>)
     \<noteq> placement (renderOverlay 0.8
       \<lparr> originalText = [], translatedText = [],
         box_2d = box_of (spec_clamp_box (300, 200, 100, 600)) \<rparr>)"
  by (simp add: placement_def renderOverlay_def js_elem_def box_of_def spec_clamp_box_def Let_def)

text \<open>
  Claim C6, amended. A box is neither clamped nor rejected: whatever its four
  coordinates, ordered or not, in range or not, the overlay is placed at ymin/10,
  xmin/10, (xmax-xmin)/10 and (ymax-ymin)/10 as they come, and the translated pane
  holds one overlay for each region, in order, whatever the other regions are.
\<close>

theorem malformed_box_rendered_as_given:
  "placement (renderOverlay opacity (item\<lparr> box_2d := box_of (ymin, xmin, ymax, xmax) \<rparr>))
     = (Num (ymin / 10), Num (xmin / 10), Num ((xmax - xmin) / 10), Num ((ymax - ymin) / 10))
   \<and> pane_overlays (renderImageContent (s\<lparr> imageDims := Some dims \<rparr>) Translated)
     = map (renderOverlay (overlayOpacity s)) (translationItems s)"
  by (simp add: placement_def renderOverlay_def js_elem_def box_of_def Let_def
        pane_overlays_def renderImageContent_def)

section \<open>Dragging\<close>

lemma move_step:
  "isDragging s \<Longrightarrow> step s (mouse_move p) =
     s\<lparr> lastPosition := p,
        viewState := (viewState s)\<lparr> view_x := view_x (viewState s) + (fst p - fst (lastPosition s)),
                                    view_y := view_y (viewState s) + (snd p - snd (lastPosition s)) \<rparr> \<rparr>"
  by (simp add: mouse_move_def handleMouseMove_def Let_def case_prod_beta)

lemma moves_accumulate:
  "isDragging s \<Longrightarrow>
     isDragging (run s (map mouse_move ps))
   \<and> lastPosition (run s (map mouse_move ps)) = last (lastPosition s # ps)
   \<and> view_x (viewState (run s (map mouse_move ps)))
       = view_x (viewState s) + (fst (last (lastPosition s # ps)) - fst (lastPosition s))
   \<and> view_y (viewState (run s (map mouse_move ps)))
       = view_y (viewState s) + (snd (last (lastPosition s # ps)) - snd (lastPosition s))
   \<and> scale (viewState (run s (map mouse_move ps))) = scale (viewState s)"
proof (induction ps arbitrary: s)
  case Nil
  then show ?case by (simp add: run_def)
next
  case (Cons p ps)
  let ?s1 = "step s (mouse_move p)"
  have r: "run s (map mouse_move (p # ps)) = run ?s1 (map mouse_move ps)"
    by (simp add: run_def)
  have d: "isDragging ?s1" using Cons.prems by (simp add: move_step)
  have l: "lastPosition ?s1 = p" using Cons.prems by (simp add: move_step)
  have vx: "view_x (viewState ?s1) = view_x (viewState s) + (fst p - fst (lastPosition s))"
    using Cons.prems by (simp add: move_step)
  have vy: "view_y (viewState ?s1) = view_y (viewState s) + (snd p - snd (lastPosition s))"
    using Cons.prems by (simp add: move_step)
  have sc: "scale (viewState ?s1) = scale (viewState s)"
    using Cons.prems by (simp add: move_step)
  from Cons.IH [OF d] show ?case
    by (simp only: r l vx vy sc) (simp add: algebra_simps)
qed

text \<open>
  Claim C7. A move while dragging adds the difference between the pointer's
  position and the last recorded one to the offsets and records the position, for
  a mouse and for a touch alike. A drag from (0,0) over (10,5), (10,5) and (20,5)
  moves the view by (20,5), and the repeated point changes nothing. In general a
  drag moves the view by the difference between its last and its first point.
\<close>

theorem drag_delta_accumulation:
  "fst (handleMouseMove True (MouseEvent cx cy) s)
     = s\<lparr> lastPosition := (cx, cy),
          viewState := (viewState s)\<lparr> view_x := view_x (viewState s) + (cx - fst (lastPosition s)),
                                      view_y := view_y (viewState s) + (cy - snd (lastPosition s)) \<rparr> \<rparr>
   \<and> fst (handleMouseMove True (TouchEvent ((cx, cy) # ts)) s)
     = fst (handleMouseMove True (MouseEvent cx cy) s)
   \<and> view_x (viewState (run s (PointerDown (MouseEvent 0 0) # map mouse_move [(10, 5), (10, 5), (20, 5)])))
     = view_x (viewState s) + 20
   \<and> view_y (viewState (run s (PointerDown (MouseEvent 0 0) # map mouse_move [(10, 5), (10, 5), (20, 5)])))
     = view_y (viewState s) + 5
   \<and> viewState (run s (PointerDown (MouseEvent 0 0) # map mouse_move [(10, 5), (10, 5)]))
     = viewState (run s (PointerDown (MouseEvent 0 0) # map mouse_move [(10, 5)]))
   \<and> view_x (viewState (run s (PointerDown (MouseEvent x0 y0) # map mouse_move ps)))
     = view_x (viewState s) + (fst (last ((x0, y0) # ps)) - x0)
   \<and> view_y (viewState (run s (PointerDown (MouseEvent x0 y0) # map mouse_move ps)))
     = view_y (viewState s) + (snd (last ((x0, y0) # ps)) - y0)"
proof -
  have one: "fst (handleMouseMove True (MouseEvent cx cy) s)
     = s\<lparr> lastPosition := (cx, cy),
          viewState := (viewState s)\<lparr> view_x := view_x (viewState s) + (cx - fst (lastPosition s)),
                                      view_y := view_y (viewState s) + (cy - snd (lastPosition s)) \<rparr> \<rparr>"
    by (simp add: handleMouseMove_def Let_def)
  have touch: "fst (handleMouseMove True (TouchEvent ((cx, cy) # ts)) s)
     = fst (handleMouseMove True (MouseEvent cx cy) s)"
    by (simp add: handleMouseMove_def Let_def)
  have down: "\<And>a b. isDragging (step s (PointerDown (MouseEvent a b)))
      \<and> lastPosition (step s (PointerDown (MouseEvent a b))) = (a, b)
      \<and> viewState (step s (PointerDown (MouseEvent a b))) = viewState s"
    by (simp add: handleMouseDown_def Let_def)
  have gen: "\<And>a b qs. view_x (viewState (run s (PointerDown (MouseEvent a b) # map mouse_move qs)))
        = view_x (viewState s) + (fst (last ((a, b) # qs)) - a)
      \<and> view_y (viewState (run s (PointerDown (MouseEvent a b) # map mouse_move qs)))
        = view_y (viewState s) + (snd (last ((a, b) # qs)) - b)"
  proof -
    fix a b qs
    let ?s0 = "step s (PointerDown (MouseEvent a b))"
    have r: "run s (PointerDown (MouseEvent a b) # map mouse_move qs) = run ?s0 (map mouse_move qs)"
      by (simp add: run_def)
    from down [of a b] have d: "isDragging ?s0" and l: "lastPosition ?s0 = (a, b)"
      and v: "viewState ?s0 = viewState s" by simp_all
    from moves_accumulate [OF d, of qs]
    show "view_x (viewState (run s (PointerDown (MouseEvent a b) # map mouse_move qs)))
        = view_x (viewState s) + (fst (last ((a, b) # qs)) - a)
      \<and> view_y (viewState (run s (PointerDown (MouseEvent a b) # map mouse_move qs)))
        = view_y (viewState s) + (snd (last ((a, b) # qs)) - b)"
      by (simp only: r l v fst_conv snd_conv)
  qed
  have ex: "view_x (viewState (run s (PointerDown (MouseEvent 0 0) # map mouse_move [(10, 5), (10, 5), (20, 5)])))
     = view_x (viewState s) + 20
   \<and> view_y (viewState (run s (PointerDown (MouseEvent 0 0) # map mouse_move [(10, 5), (10, 5), (20, 5)])))
     = view_y (viewState s) + 5"
    using gen [of 0 0 "[(10, 5), (10, 5), (20, 5)]"] by simp
  have dup: "viewState (run s (PointerDown (MouseEvent 0 0) # map mouse_move [(10, 5), (10, 5)]))
     = viewState (run s (PointerDown (MouseEvent 0 0) # map mouse_move [(10, 5)]))"
    by (simp add: run_def mouse_move_def handleMouseDown_def handleMouseMove_def Let_def)
  from one touch ex dup gen [of x0 y0 ps] show ?thesis by blast
qed

section \<open>The end-to-end scenario\<close>

text \<open>
  Claim C8, as stated, fails: the text of the scenario is the one character U+55E8,
  whose length is 1 and not 2, so the second term of the font size is 95 cqw and
  not 47.5 cqw.
\<close>

theorem single_char_font_counterexample:
  "length (translatedText \<lparr> originalText = [], translatedText = [21992], box_2d = box_of (0, 0, 500, 1000) \<rparr>) = 1
   \<and> fontSize (renderOverlay 0.8
       \<lparr> originalText = [], translatedText = [21992], box_2d = box_of (0, 0, 500, 1000) \<rparr>)
     = CssMin (Cqh 85) (Cqw 95)
   \<and> fontSize (renderOverlay 0.8
       \<lparr> originalText = [], translatedText = [21992], box_2d = box_of (0, 0, 500, 1000) \<rparr>)
     \<noteq> CssMin (Cqh 85) (Cqw 47.5)"
  by (simp add: renderOverlay_def textLen_def isVertical_def js_elem_def box_of_def Let_def)

text \<open>
  Claim C8, amended. For an image of 1200 by 800 (aspect ratio 1.5) and the single
  region with the box (0, 0, 500, 1000), the translated pane holds one overlay, the
  region is not vertical and is placed at top 0, left 0, width 100, height 50; for
  the text U+55E8, of length 1, the font size is min(85 cqh, 95 cqw), and for any
  text of length 2 it is min(85 cqh, 47.5 cqw).
\<close>

theorem end_to_end_scenario:
  "map_option aspectRatio (renderImageContent
        (img_onload \<lparr> src = d, naturalWidth = 1200, naturalHeight = 800 \<rparr>
           (mount d [\<lparr> originalText = t, translatedText = u, box_2d = box_of (0, 0, 500, 1000) \<rparr>]))
        Translated) = Some (Num 1.5)
   \<and> pane_overlays (renderImageContent
        (img_onload \<lparr> src = d, naturalWidth = 1200, naturalHeight = 800 \<rparr>
           (mount d [\<lparr> originalText = t, translatedText = u, box_2d = box_of (0, 0, 500, 1000) \<rparr>]))
        Translated)
     = [renderOverlay 0.8 \<lparr> originalText = t, translatedText = u, box_2d = box_of (0, 0, 500, 1000) \<rparr>]
   \<and> isVertical \<lparr> originalText = t, translatedText = u, box_2d = box_of (0, 0, 500, 1000) \<rparr> = False
   \<and> placement (renderOverlay 0.8
        \<lparr> originalText = t, translatedText = u, box_2d = box_of (0, 0, 500, 1000) \<rparr>)
     = (Num 0, Num 0, Num 100, Num 50)
   \<and> fontSize (renderOverlay 0.8
        \<lparr> originalText = t, translatedText = [21992], box_2d = box_of (0, 0, 500, 1000) \<rparr>)
     = CssMin (Cqh 85) (Cqw 95)
   \<and> fontSize (renderOverlay 0.8
        \<lparr> originalText = t, translatedText = [a, b], box_2d = box_of (0, 0, 500, 1000) \<rparr>)
     = CssMin (Cqh 85) (Cqw 47.5)"
proof -
  have v: "\<And>w. isVertical \<lparr> originalText = t, translatedText = w, box_2d = box_of (0, 0, 500, 1000) \<rparr> = False"
    by (simp add: isVertical_def js_elem_def box_of_def Let_def)
  have r: "map_option aspectRatio (renderImageContent
        (img_onload \<lparr> src = d, naturalWidth = 1200, naturalHeight = 800 \<rparr>
           (mount d [\<lparr> originalText = t, translatedText = u, box_2d = box_of (0, 0, 500, 1000) \<rparr>]))
        Translated) = Some (Num 1.5)"
    by (simp add: renderImageContent_def img_onload_def mount_def js_div_nat_def)
  have o: "pane_overlays (renderImageContent
        (img_onload \<lparr> src = d, naturalWidth = 1200, naturalHeight = 800 \<rparr>
           (mount d [\<lparr> originalText = t, translatedText = u, box_2d = box_of (0, 0, 500, 1000) \<rparr>]))
        Translated)
     = [renderOverlay 0.8 \<lparr> originalText = t, translatedText = u, box_2d = box_of (0, 0, 500, 1000) \<rparr>]"
    by (simp add: pane_overlays_def renderImageContent_def img_onload_def mount_def)
  have p: "placement (renderOverlay 0.8
        \<lparr> originalText = t, translatedText = u, box_2d = box_of (0, 0, 500, 1000) \<rparr>)
     = (Num 0, Num 0, Num 100, Num 50)"
    by (simp add: placement_def renderOverlay_def js_elem_def box_of_def Let_def)
  have f1: "fontSize (renderOverlay 0.8
        \<lparr> originalText = t, translatedText = [21992], box_2d = box_of (0, 0, 500, 1000) \<rparr>)
     = CssMin (Cqh 85) (Cqw 95)"
    by (simp add: renderOverlay_def Let_def v textLen_def)
  have f2: "fontSize (renderOverlay 0.8
        \<lparr> originalText = t, translatedText = [a, b], box_2d = box_of (0, 0, 500, 1000) \<rparr>)
     = CssMin (Cqh 85) (Cqw 47.5)"
    by (simp add: renderOverlay_def Let_def v textLen_def)
  from r o v [of u] p f1 f2 show ?thesis by blast
qed

section \<open>Completion of a superseded load\<close>

text \<open>
  Claim C9, as stated, fails: the viewer is mounted on source A, the source becomes
  B, the load of B completes and then the load of A completes; the dimensions are
  then those of A although the source is B, where a completion that checked the
  source would have left those of B.
\<close>

theorem stale_load_counterexample:
  "imageData (run (mount [65] [])
       [NewImageData [66],
        ImageLoaded \<lparr> src = [66], naturalWidth = 1200, naturalHeight = 800 \<rparr>,
        ImageLoaded \<lparr> src = [65], naturalWidth = 100, naturalHeight = 400 \<rparr>]) = [66]
   \<and> imageDims (run (mount [65] [])
       [NewImageData [66],
        ImageLoaded \<lparr> src = [66], naturalWidth = 1200, naturalHeight = 800 \<rparr>,
        ImageLoaded \<lparr> src = [65], naturalWidth = 100, naturalHeight = 400 \<rparr>])
     = Some \<lparr> dims_w = 100, dims_h = 400, ratio = Num 0.25 \<rparr>
   \<and> imageDims (run (mount [65] [])
       [NewImageData [66],
        ImageLoaded \<lparr> src = [66], naturalWidth = 1200, naturalHeight = 800 \<rparr>,
        ImageLoaded \<lparr> src = [65], naturalWidth = 100, naturalHeight = 400 \<rparr>])
     \<noteq> imageDims (spec_onload \<lparr> src = [65], naturalWidth = 100, naturalHeight = 400 \<rparr>
         (run (mount [65] [])
           [NewImageData [66],
            ImageLoaded \<lparr> src = [66], naturalWidth = 1200, naturalHeight = 800 \<rparr>]))"
  by (simp add: run_def mount_def img_onload_def spec_onload_def js_div_nat_def)

text \<open>
  Claim C9, amended. A load completion checks nothing: it stores the dimensions of
  the image it belongs to and changes nothing else, also when the source has been
  replaced since the load started; the completion that comes last decides the
  dimensions.
\<close>

theorem load_completion_unconditional:
  "step s (ImageLoaded img)
     = s\<lparr> imageDims := Some \<lparr> dims_w = naturalWidth img, dims_h = naturalHeight img,
                              ratio = js_div_nat (naturalWidth img) (naturalHeight img) \<rparr> \<rparr>
   \<and> imageDims (run s [NewImageData d, ImageLoaded img])
     = Some \<lparr> dims_w = naturalWidth img, dims_h = naturalHeight img,
              ratio = js_div_nat (naturalWidth img) (naturalHeight img) \<rparr>
   \<and> imageData (run s [NewImageData d, ImageLoaded img]) = d"
  by (simp add: run_def img_onload_def)

section \<open>What each event leaves unchanged\<close>

text \<open>
  Claim C10. A wheel event and a press of + or - leave the two offsets as they are;
  a pointer move leaves the scale as it is; pointer down and pointer up leave the
  whole view state as it is; a pointer move while not dragging changes nothing.
\<close>

theorem handlers_frame:
  "view_x (viewState (step s (Wheel deltaY))) = view_x (viewState s)
   \<and> view_y (viewState (step s (Wheel deltaY))) = view_y (viewState s)
   \<and> view_x (handleWheel rendered deltaY prev) = view_x prev
   \<and> view_y (handleWheel rendered deltaY prev) = view_y prev
   \<and> view_x (viewState (step s ZoomInClick)) = view_x (viewState s)
   \<and> view_y (viewState (step s ZoomInClick)) = view_y (viewState s)
   \<and> view_x (viewState (step s ZoomOutClick)) = view_x (viewState s)
   \<and> view_y (viewState (step s ZoomOutClick)) = view_y (viewState s)
   \<and> scale (viewState (step s (PointerMove e))) = scale (viewState s)
   \<and> scale (viewState (fst (handleMouseMove dragging e s))) = scale (viewState s)
   \<and> viewState (step s (PointerDown e)) = viewState s
   \<and> viewState (step s PointerUp) = viewState s
   \<and> handleMouseMove False e s = (s, None)
   \<and> step (s\<lparr> isDragging := False \<rparr>) (PointerMove e) = s\<lparr> isDragging := False \<rparr>"
proof -
  have wheel: "\<And>r p. view_x (handleWheel r deltaY p) = view_x p \<and> view_y (handleWheel r deltaY p) = view_y p"
    by (simp add: handleWheel_def Let_def)
  have zin: "view_x (zoomInClick (viewState s)) = view_x (viewState s)
      \<and> view_y (zoomInClick (viewState s)) = view_y (viewState s)"
    by (simp add: zoomInClick_def)
  have zout: "view_x (zoomOutClick (viewState s)) = view_x (viewState s)
      \<and> view_y (zoomOutClick (viewState s)) = view_y (viewState s)"
    by (simp add: zoomOutClick_def)
  have move: "\<And>g. scale (viewState (fst (handleMouseMove g e s))) = scale (viewState s)"
    by (simp add: handleMouseMove_def Let_def split: sum.split prod.split)
  have down: "viewState (step s (PointerDown e)) = viewState s"
    by (simp add: handleMouseDown_def Let_def split: sum.split prod.split)
  have up: "viewState (step s PointerUp) = viewState s"
    by (simp add: handleMouseUp_def)
  have idle: "\<And>t. handleMouseMove False e t = (t, None)"
    by (simp add: handleMouseMove_def)
  have idle_step: "step (s\<lparr> isDragging := False \<rparr>) (PointerMove e) = s\<lparr> isDragging := False \<rparr>"
    by (simp add: idle)
  from wheel [of "viewState s" "viewState s"] wheel [of rendered prev] zin zout
    move [of "isDragging s"] move [of dragging] down up idle [of s] idle_step
  show ?thesis by simp
qed

end
